theory Spec2Isabelle
  imports Main
begin

section \<open>JavaScript values\<close>

text \<open>
  The values that flow through \<^verbatim>\<open>index.js\<close>: primitives, references to connection
  objects (by address in the store) and Error objects (by their name). Strict
  equality \<^verbatim>\<open>===\<close> on these values is equality of the datatype.
\<close>

datatype jsval =
    JUndefined
  | JNull
  | JBool bool
  | JNum int
  | JStr string
  | JRef nat
  | JError string

text \<open>ToBoolean, as \<^verbatim>\<open>if (...)\<close>, \<^verbatim>\<open>!\<close>, \<^verbatim>\<open>&&\<close> and \<^verbatim>\<open>||\<close> apply it.\<close>

fun truthy :: "jsval \<Rightarrow> bool" where
  "truthy JUndefined = False"
| "truthy JNull = False"
| "truthy (JBool b) = b"
| "truthy (JNum n) = (n \<noteq> 0)"
| "truthy (JStr s) = (s \<noteq> [])"
| "truthy (JRef r) = True"
| "truthy (JError e) = True"

definition TypeError :: jsval where
  "TypeError = JError ''TypeError''"

section \<open>Function objects and the listener registry\<close>

text \<open>
  The six named inner functions of \<^verbatim>\<open>connect\<close> and \<^verbatim>\<open>disconnect\<close>. Every call of
  \<^verbatim>\<open>connect\<close> or \<^verbatim>\<open>disconnect\<close> creates fresh function objects that close over the
  \<^verbatim>\<open>resolve\<close> and \<^verbatim>\<open>reject\<close> of that call's promise, so a closure is identified by its
  code and the promise it settles. (The two \<^verbatim>\<open>cleanup\<close> functions are told apart by
  the operation they belong to.)
\<close>

datatype code =
    onConnectionError
  | onConnectionOpened
  | connect_cleanup
  | onDisconnectionError
  | onConnectionClosed
  | disconnect_cleanup

text \<open>
  A function object is a closure of \<^verbatim>\<open>index.js\<close>; the result of \<^verbatim>\<open>f.bind(this)\<close>
  (a new object at every call of \<^verbatim>\<open>bind\<close>: receiver handle and a fresh identity);
  the wrapper \<^verbatim>\<open>g\<close> that the emitter's \<^verbatim>\<open>once\<close> builds around a listener (with the
  event name it removes itself from, and a fresh identity); or a function of other
  code, given by an identity and its declared number of parameters.
\<close>

datatype fn =
    Closure code nat
  | Bound fn nat nat
  | OnceWrapper fn string nat
  | Foreign nat nat

text \<open>The \<^verbatim>\<open>length\<close> property of a function object: its number of declared parameters.
  \<^verbatim>\<open>onConnectionError(err)\<close> and \<^verbatim>\<open>onDisconnectionError(err)\<close> declare one, the other
  inner functions none; \<^verbatim>\<open>bind\<close> with no bound arguments keeps the length; the
  emitter's wrapper \<^verbatim>\<open>g\<close> declares none.\<close>

fun fn_length :: "fn \<Rightarrow> nat" where
  "fn_length (Closure onConnectionError p) = 1"
| "fn_length (Closure onDisconnectionError p) = 1"
| "fn_length (Closure k p) = 0"
| "fn_length (Bound f h b) = fn_length f"
| "fn_length (OnceWrapper f ev i) = 0"
| "fn_length (Foreign i n) = n"

text \<open>The \<^verbatim>\<open>listener\<close> property, which only the wrapper of \<^verbatim>\<open>once\<close> carries.\<close>

fun fn_listener :: "fn \<Rightarrow> fn option" where
  "fn_listener (OnceWrapper f ev i) = Some f"
| "fn_listener f = None"

text \<open>
  The emitter keeps, under an event name, either the single listener itself or an
  array of listeners: \<^verbatim>\<open>removeListeners\<close> tells the two apart with
  \<^verbatim>\<open>Array.isArray\<close>.
\<close>

datatype slot = Single fn | Many "fn list"

section \<open>The connection object and the handle\<close>

text \<open>
  The members of a connection that \<^verbatim>\<open>index.js\<close> reads: \<^verbatim>\<open>host\<close>, \<^verbatim>\<open>port\<close>,
  \<^verbatim>\<open>hosts\<close> (absent, or a list of host and port pairs), \<^verbatim>\<open>user\<close>, \<^verbatim>\<open>pass\<close>,
  \<^verbatim>\<open>name\<close>, \<^verbatim>\<open>options\<close>, \<^verbatim>\<open>readyState\<close> and the registry \<^verbatim>\<open>_events\<close>
  (absent, or a table from event names to slots).
\<close>

record native_connection =
  host :: jsval
  port :: jsval
  hosts :: "(jsval \<times> jsval) list option"
  user :: jsval
  pass :: jsval
  name :: jsval
  conn_options :: jsval
  readyState :: jsval
  events :: "(string \<rightharpoonup> slot) option"

text \<open>The \<^verbatim>\<open>Mongootils\<close> object: \<^verbatim>\<open>this.uri\<close>, \<^verbatim>\<open>this.options\<close> and
  \<^verbatim>\<open>this.connection\<close> (absent, or the address of a connection object).\<close>

record mongootils =
  uri :: jsval
  options :: jsval
  connection :: "nat option"

text \<open>The object literal that \<^verbatim>\<open>getConnectionURI\<close> hands to the URI codec.\<close>

record uriObject =
  username :: jsval
  password :: jsval
  database :: jsval
  uri_hosts :: "(jsval \<times> jsval) list"

text \<open>
  Modelled from the spec: \<^verbatim>\<open>mongoose.Connection.STATES\<close>, the Connection Provider's
  table from state names to codes, is not part of the repository. The five names
  are the spec's; the codes are the driver's. The source's own comment in
  \<^verbatim>\<open>connect\<close> fixes \<^verbatim>\<open>disconnected (readyState = 0)\<close>. Any other name has no entry.
\<close>

definition STATES :: "string \<Rightarrow> jsval" where
  "STATES s =
     (if s = ''disconnected'' then JNum 0
      else if s = ''connected'' then JNum 1
      else if s = ''connecting'' then JNum 2
      else if s = ''disconnecting'' then JNum 3
      else if s = ''uninitialized'' then JNum 99
      else JUndefined)"

section \<open>The world\<close>

text \<open>A promise of \<^verbatim>\<open>new BB(...)\<close>: pending, or settled once and for all.\<close>

datatype promise = Pending | Resolved jsval | Rejected jsval

text \<open>The requests that \<^verbatim>\<open>index.js\<close> makes to the Connection Provider:
  \<^verbatim>\<open>mongoose.connect(uri, options)\<close>, \<^verbatim>\<open>mongoose.createConnection(uri, options)\<close>
  and \<^verbatim>\<open>connection.close(callback)\<close>, the callback being the anonymous function of
  \<^verbatim>\<open>disconnect\<close>, given by the promise it resolves and the handle it is bound to.\<close>

datatype request =
    MongooseConnect jsval jsval
  | CreateConnection jsval jsval
  | ConnectionClose nat nat nat

text \<open>
  Everything the module can observe or change: the connection objects by address,
  \<^verbatim>\<open>mongoose.connections\<close> (a list of addresses), the handles by identity, the
  promises by identity, the next unused identity, and the log of requests made to
  the provider.
\<close>

record world =
  heap :: "nat \<Rightarrow> native_connection"
  connections :: "nat list"
  handles :: "nat \<Rightarrow> mongootils"
  promises :: "nat \<Rightarrow> promise"
  next_id :: nat
  requests :: "request list"

section \<open>Queries\<close>

text \<open>
  \<^verbatim>\<open>Mongootils.prototype.is\<close>. The first branch returns
  \<^verbatim>\<open>!this.connection || this.connection.readyState === STATES[state]\<close>, a boolean;
  the default branch returns \<^verbatim>\<open>this.connection && (...)\<close>, which is the value of
  \<^verbatim>\<open>this.connection\<close> itself, \<^verbatim>\<open>undefined\<close>, when no connection is held.
\<close>

definition is_state :: "mongootils \<Rightarrow> world \<Rightarrow> string \<Rightarrow> jsval" where
  "is_state this w state =
     (if state = ''disconnected'' \<or> state = ''uninitialized'' then
        (case connection this of
           None \<Rightarrow> JBool True
         | Some c \<Rightarrow> JBool (readyState (heap w c) = STATES state))
      else
        (case connection this of
           None \<Rightarrow> JUndefined
         | Some c \<Rightarrow> JBool (readyState (heap w c) = STATES state)))"

text \<open>\<^verbatim>\<open>Mongootils.prototype.getConnection\<close>.\<close>

definition conn_val :: "nat option \<Rightarrow> jsval" where
  "conn_val r = (case r of None \<Rightarrow> JUndefined | Some c \<Rightarrow> JRef c)"

definition getConnection :: "mongootils \<Rightarrow> jsval" where
  "getConnection this = conn_val (connection this)"

text \<open>
  \<^verbatim>\<open>Mongootils.prototype.getConnectionURI\<close>. The two functions of the URI codec,
  \<^verbatim>\<open>mongodburi.format\<close> and \<^verbatim>\<open>mongodburi.formatMongoose\<close>, are parameters.
\<close>

definition getConnectionURI ::
  "(uriObject \<Rightarrow> jsval) \<Rightarrow> (jsval \<Rightarrow> jsval) \<Rightarrow> mongootils \<Rightarrow> world \<Rightarrow> jsval" where
  "getConnectionURI format formatMongoose this w =
     (case connection this of
        None \<Rightarrow> JUndefined
      | Some c \<Rightarrow>
          let conn = heap w c;
              uriObject = \<lparr> username = user conn, password = pass conn,
                            database = name conn,
                            uri_hosts = (case hosts conn of
                                           None \<Rightarrow> [(host conn, port conn)]
                                         | Some hs \<Rightarrow> hs) \<rparr>;
              u = format uriObject
          in formatMongoose u)"

text \<open>
  The constructor \<^verbatim>\<open>Mongootils\<close>. Its two forms are told apart by the constructor
  name of the first argument: a \<^verbatim>\<open>NativeConnection\<close> (here: its address), or anything
  else together with a second argument.
\<close>

datatype ctor_args = FromConnection nat | FromUri jsval jsval

fun Mongootils ::
  "(uriObject \<Rightarrow> jsval) \<Rightarrow> (jsval \<Rightarrow> jsval) \<Rightarrow> ctor_args \<Rightarrow> world \<Rightarrow> mongootils" where
  "Mongootils format formatMongoose (FromConnection c) w =
     (let this = \<lparr> uri = JUndefined, options = JUndefined, connection = Some c \<rparr>
      in this \<lparr> uri := getConnectionURI format formatMongoose this w,
                options := conn_options (heap w c) \<rparr>)"
| "Mongootils format formatMongoose (FromUri a0 a1) w =
     \<lparr> uri = a0, options = a1, connection = None \<rparr>"

section \<open>Completions\<close>

text \<open>
  A statement sequence either runs to its end or stops at a throw; either way the
  mutations made so far stay. \<open>then_do\<close> is the semicolon.
\<close>

datatype completion = Normal world | Throw jsval world

fun world_of :: "completion \<Rightarrow> world" where
  "world_of (Normal w) = w"
| "world_of (Throw e w) = w"

fun then_do :: "completion \<Rightarrow> (world \<Rightarrow> completion) \<Rightarrow> completion" where
  "then_do (Normal w) f = f w"
| "then_do (Throw e w) f = Throw e w"

text \<open>\<^verbatim>\<open>resolve(v)\<close> and \<^verbatim>\<open>reject(e)\<close> of promise \<open>p\<close>: a settled promise stays
  as it is.\<close>

definition settle :: "nat \<Rightarrow> promise \<Rightarrow> world \<Rightarrow> world" where
  "settle p s w =
     (if promises w p = Pending then w \<lparr> promises := (promises w)(p := s) \<rparr> else w)"

text \<open>\<^verbatim>\<open>new BB(executor)\<close> runs the executor at once; the promise is rejected with
  whatever the executor throws.\<close>

fun executor_end :: "nat \<Rightarrow> completion \<Rightarrow> world" where
  "executor_end p (Normal w) = w"
| "executor_end p (Throw e w) = settle p (Rejected e) w"

definition set_connection :: "nat \<Rightarrow> nat option \<Rightarrow> world \<Rightarrow> world" where
  "set_connection h r w =
     w \<lparr> handles := (handles w)(h := (handles w h) \<lparr> connection := r \<rparr>) \<rparr>"

definition set_events :: "nat \<Rightarrow> (string \<rightharpoonup> slot) option \<Rightarrow> world \<Rightarrow> world" where
  "set_events c m w = w \<lparr> heap := (heap w)(c := (heap w c) \<lparr> events := m \<rparr>) \<rparr>"

section \<open>The event emitter of a connection\<close>

text \<open>
  Modelled from the spec: the connection's event-emitter interface (\<^verbatim>\<open>on\<close>,
  \<^verbatim>\<open>once\<close>, \<^verbatim>\<open>removeListener\<close>, the listing of registered listeners by event
  name, and the delivery of an event to them) is the platform's \<^verbatim>\<open>events\<close>
  module, not part of the repository. The layout of the registry \<^verbatim>\<open>_events\<close> is
  the one that \<^verbatim>\<open>removeListeners\<close> itself tests for with \<^verbatim>\<open>Array.isArray\<close>: a
  lone listener is kept as the function itself, two or more as an array.
  \<^verbatim>\<open>on\<close> appends a listener.
\<close>

definition on :: "nat \<Rightarrow> string \<Rightarrow> fn \<Rightarrow> world \<Rightarrow> world" where
  "on c ev f w =
     (let m = (case events (heap w c) of None \<Rightarrow> Map.empty | Some m \<Rightarrow> m);
          s = (case m ev of
                 None \<Rightarrow> Single f
               | Some (Single g) \<Rightarrow> Many [g, f]
               | Some (Many fs) \<Rightarrow> Many (fs @ [f]))
      in set_events c (Some (m(ev \<mapsto> s))) w)"

text \<open>\<^verbatim>\<open>once\<close> registers a fresh wrapper \<^verbatim>\<open>g\<close> with \<^verbatim>\<open>g.listener = f\<close>.\<close>

definition once :: "nat \<Rightarrow> string \<Rightarrow> fn \<Rightarrow> world \<Rightarrow> world" where
  "once c ev f w =
     (let i = next_id w
      in on c ev (OnceWrapper f ev i) (w \<lparr> next_id := Suc i \<rparr>))"

text \<open>What the registry of connection \<open>c\<close> holds under an event name, and how many
  listeners that is.\<close>

definition listeners_of :: "world \<Rightarrow> nat \<Rightarrow> string \<Rightarrow> slot option" where
  "listeners_of w c ev = (case events (heap w c) of None \<Rightarrow> None | Some m \<Rightarrow> m ev)"

definition listener_count :: "world \<Rightarrow> nat \<Rightarrow> string \<Rightarrow> nat" where
  "listener_count w c ev =
     (case listeners_of w c ev of
        None \<Rightarrow> 0
      | Some (Single g) \<Rightarrow> 1
      | Some (Many fs) \<Rightarrow> length fs)"

text \<open>A registered function \<open>g\<close> is the one asked for when it is that function or
  wraps it: \<^verbatim>\<open>g === listener || g.listener === listener\<close>.\<close>

definition matches :: "fn \<Rightarrow> fn \<Rightarrow> bool" where
  "matches listener g = (g = listener \<or> fn_listener g = Some listener)"

text \<open>The array without its last matching entry; \<open>None\<close> when nothing matches.\<close>

fun remove_last :: "fn \<Rightarrow> fn list \<Rightarrow> fn list option" where
  "remove_last l [] = None"
| "remove_last l (g # gs) =
     (case remove_last l gs of
        Some gs' \<Rightarrow> Some (g # gs')
      | None \<Rightarrow> if matches l g then Some gs else None)"

text \<open>\<^verbatim>\<open>removeListener(ev, listener)\<close> removes at most one registration of the given
  listener, the most recently added one, and nothing else.\<close>

definition removeListener :: "nat \<Rightarrow> string \<Rightarrow> fn \<Rightarrow> world \<Rightarrow> world" where
  "removeListener c ev l w =
     (case events (heap w c) of
        None \<Rightarrow> w
      | Some m \<Rightarrow>
          (case m ev of
             None \<Rightarrow> w
           | Some (Single g) \<Rightarrow>
               if matches l g then set_events c (Some (m(ev := None))) w else w
           | Some (Many fs) \<Rightarrow>
               (case remove_last l fs of
                  None \<Rightarrow> w
                | Some [g] \<Rightarrow> set_events c (Some (m(ev \<mapsto> Single g))) w
                | Some gs \<Rightarrow> set_events c (Some (m(ev \<mapsto> Many gs))) w)))"

section \<open>Listener bookkeeping\<close>

text \<open>
  \<^verbatim>\<open>Mongootils.prototype.addConnectionListener\<close>. The guard is
  \<^verbatim>\<open>!listeners || !listeners[ev] || listeners[ev].length === 0\<close>: on an array
  \<^verbatim>\<open>length\<close> counts the listeners, on a lone listener it is the function's number
  of declared parameters. Reading \<^verbatim>\<open>this.connection._events\<close> throws when no
  connection is held.
\<close>

definition addConnectionListener :: "nat \<Rightarrow> string \<Rightarrow> fn \<Rightarrow> world \<Rightarrow> completion" where
  "addConnectionListener h ev cb w =
     (case connection (handles w h) of
        None \<Rightarrow> Throw TypeError w
      | Some c \<Rightarrow>
          if (case events (heap w c) of
                None \<Rightarrow> True
              | Some listeners \<Rightarrow>
                  (case listeners ev of
                     None \<Rightarrow> True
                   | Some (Single g) \<Rightarrow> fn_length g = 0
                   | Some (Many fs) \<Rightarrow> length fs = 0))
          then
            (let b = next_id w;
                 w' = w \<lparr> next_id := Suc b \<rparr>
             in if ev = ''error'' then Normal (on c ev (Bound cb h b) w')
                else Normal (once c ev (Bound cb h b) w'))
          else Normal w)"

text \<open>
  \<^verbatim>\<open>Mongootils.prototype.removeListeners\<close>. On an array it calls
  \<^verbatim>\<open>this.connection.removeListener(ev, cb)\<close> once per entry, from inside a plain
  function passed to \<^verbatim>\<open>forEach\<close>; the file is in strict mode, so \<^verbatim>\<open>this\<close> is
  undefined there and the first iteration throws. On a lone listener it calls
  \<^verbatim>\<open>removeListener(ev, cb)\<close> once.
\<close>

definition removeListeners :: "nat \<Rightarrow> string \<Rightarrow> fn \<Rightarrow> world \<Rightarrow> completion" where
  "removeListeners h ev cb w =
     (case connection (handles w h) of
        None \<Rightarrow> Normal w
      | Some c \<Rightarrow>
          (case events (heap w c) of
             None \<Rightarrow> Normal w
           | Some listeners \<Rightarrow>
               (case listeners ev of
                  None \<Rightarrow> Normal w
                | Some (Many fs) \<Rightarrow> if fs = [] then Normal w else Throw TypeError w
                | Some (Single g) \<Rightarrow> Normal (removeListener c ev cb w))))"

section \<open>Running the inner functions\<close>

text \<open>The receiver \<^verbatim>\<open>this\<close> of a call: the emitting connection when the emitter
  calls a listener, a handle after \<^verbatim>\<open>bind\<close>. A connection has no \<^verbatim>\<open>uri\<close>,
  \<^verbatim>\<open>connection\<close> or \<^verbatim>\<open>removeListeners\<close> member.\<close>

datatype receiver = Emitter nat | Handle nat

fun this_connection :: "receiver \<Rightarrow> world \<Rightarrow> jsval" where
  "this_connection (Handle h) w = conn_val (connection (handles w h))"
| "this_connection (Emitter c) w = JUndefined"

fun this_removeListeners :: "receiver \<Rightarrow> string \<Rightarrow> fn \<Rightarrow> world \<Rightarrow> completion" where
  "this_removeListeners (Handle h) ev cb w = removeListeners h ev cb w"
| "this_removeListeners (Emitter c) ev cb w = Throw TypeError w"

text \<open>The bodies of the six inner functions; \<open>a\<close> is the first argument of the call.
  The calls of the debug logger \<^verbatim>\<open>d\<close> have no effect on the world.\<close>

fun call_closure :: "code \<Rightarrow> nat \<Rightarrow> receiver \<Rightarrow> jsval \<Rightarrow> world \<Rightarrow> completion" where
  "call_closure onConnectionError p this a w = Normal (settle p (Rejected a) w)"
| "call_closure onConnectionOpened p this a w =
     Normal (settle p (Resolved (this_connection this w)) w)"
| "call_closure connect_cleanup p this a w =
     then_do (then_do
       (this_removeListeners this ''error'' (Closure onConnectionError p) w)
       (this_removeListeners this ''open'' (Closure onConnectionOpened p)))
       (this_removeListeners this ''close'' (Closure connect_cleanup p))"
| "call_closure onDisconnectionError p this a w = Normal (settle p (Rejected a) w)"
| "call_closure onConnectionClosed p this a w = Normal w"
| "call_closure disconnect_cleanup p this a w =
     then_do (then_do
       (this_removeListeners this ''error'' (Closure onDisconnectionError p) w)
       (this_removeListeners this ''disconnected'' (Closure onConnectionClosed p)))
       (this_removeListeners this ''close'' (Closure disconnect_cleanup p))"

text \<open>
  Calling a function object. A bound function runs its target with the bound
  receiver. The wrapper of \<^verbatim>\<open>once\<close> first removes itself from the emitter and then
  runs the listener it wraps. What a function of other code does is outside the
  model: it leaves the world as it is.
\<close>

fun call_fn :: "fn \<Rightarrow> receiver \<Rightarrow> jsval \<Rightarrow> world \<Rightarrow> completion" where
  "call_fn (Closure k p) this a w = call_closure k p this a w"
| "call_fn (Bound f h b) this a w = call_fn f (Handle h) a w"
| "call_fn (OnceWrapper f ev i) this a w =
     (case this of
        Emitter c \<Rightarrow> call_fn f this a (removeListener c ev (OnceWrapper f ev i) w)
      | Handle h \<Rightarrow> Throw TypeError w)"
| "call_fn (Foreign i n) this a w = Normal w"

text \<open>Delivery of an event: the listeners registered at that moment are called in
  order, each with the emitter as receiver; a throw ends the delivery. An
  \<^verbatim>\<open>error\<close> event without a listener is thrown.\<close>

fun call_all :: "fn list \<Rightarrow> nat \<Rightarrow> jsval \<Rightarrow> world \<Rightarrow> completion" where
  "call_all [] c a w = Normal w"
| "call_all (f # fs) c a w = then_do (call_fn f (Emitter c) a w) (call_all fs c a)"

definition emit :: "nat \<Rightarrow> string \<Rightarrow> jsval \<Rightarrow> world \<Rightarrow> completion" where
  "emit c ev a w =
     (case listeners_of w c ev of
        None \<Rightarrow>
          if ev = ''error''
          then Throw (case a of JError e \<Rightarrow> a | _ \<Rightarrow> JError ''Uncaught'') w
          else Normal w
      | Some (Single f) \<Rightarrow> call_fn f (Emitter c) a w
      | Some (Many fs) \<Rightarrow> call_all fs c a w)"

section \<open>connect and disconnect\<close>

text \<open>
  The Connection Provider's side of the three requests is a parameter: what
  \<^verbatim>\<open>mongoose.connect(uri, options)\<close> does to the default connection object before
  it returns, the object that \<^verbatim>\<open>mongoose.createConnection(uri, options)\<close> returns,
  and what \<^verbatim>\<open>connection.close(callback)\<close> does to the connection before it
  returns. What the provider does later (state changes, events, the call of the
  close callback) are steps of their own.
\<close>

record provider =
  mongoose_connect :: "jsval \<Rightarrow> jsval \<Rightarrow> native_connection \<Rightarrow> native_connection"
  mongoose_createConnection :: "jsval \<Rightarrow> jsval \<Rightarrow> native_connection"
  connection_close :: "native_connection \<Rightarrow> native_connection"

text \<open>\<^verbatim>\<open>new BB(...)\<close>: a fresh pending promise.\<close>

definition new_promise :: "world \<Rightarrow> nat \<times> world" where
  "new_promise w =
     (next_id w, w \<lparr> next_id := Suc (next_id w),
                      promises := (promises w)(next_id w := Pending) \<rparr>)"

text \<open>The branch of \<^verbatim>\<open>connect\<close> that starts a connection: the default slot
  \<^verbatim>\<open>mongoose.connections[0]\<close> through \<^verbatim>\<open>mongoose.connect\<close>, or a new object from
  \<^verbatim>\<open>mongoose.createConnection\<close>, which the provider also adds to
  \<^verbatim>\<open>mongoose.connections\<close>.\<close>

definition uses_default_slot :: "world \<Rightarrow> bool" where
  "uses_default_slot w =
     (length (connections w) = 1 \<and> readyState (heap w (connections w ! 0)) = JNum 0)"

definition open_connection :: "provider \<Rightarrow> nat \<Rightarrow> world \<Rightarrow> world" where
  "open_connection P h w =
     (let this = handles w h
      in if uses_default_slot w then
           (let d = connections w ! 0
            in set_connection h (Some d)
                 (w \<lparr> heap := (heap w)(d := mongoose_connect P (uri this) (options this) (heap w d)),
                      requests := requests w @ [MongooseConnect (uri this) (options this)] \<rparr>))
         else
           (let c = next_id w
            in set_connection h (Some c)
                 (w \<lparr> heap := (heap w)(c := mongoose_createConnection P (uri this) (options this)),
                      connections := connections w @ [c],
                      next_id := Suc c,
                      requests := requests w @ [CreateConnection (uri this) (options this)] \<rparr>)))"

text \<open>\<^verbatim>\<open>Mongootils.prototype.connect\<close>: the new promise and the world after the
  executor has run.\<close>

definition connect :: "provider \<Rightarrow> nat \<Rightarrow> world \<Rightarrow> nat \<times> world" where
  "connect P h w0 =
     (let (p, w) = new_promise w0
      in if truthy (is_state (handles w h) w ''connected'') then
           (p, settle p (Resolved (conn_val (connection (handles w h)))) w)
         else if truthy (is_state (handles w h) w ''connecting'') then (p, w)
         else
           (p, executor_end p
                 (then_do (then_do
                    (addConnectionListener h ''error'' (Closure onConnectionError p)
                       (open_connection P h w))
                    (addConnectionListener h ''open'' (Closure onConnectionOpened p)))
                    (addConnectionListener h ''close'' (Closure connect_cleanup p)))))"

text \<open>\<^verbatim>\<open>this.connection.close(callback)\<close>, the callback bound to the handle.\<close>

definition close_request :: "provider \<Rightarrow> nat \<Rightarrow> nat \<Rightarrow> world \<Rightarrow> completion" where
  "close_request P p h w =
     (case connection (handles w h) of
        None \<Rightarrow> Throw TypeError w
      | Some c \<Rightarrow>
          Normal (w \<lparr> heap := (heap w)(c := connection_close P (heap w c)),
                      requests := requests w @ [ConnectionClose c p h] \<rparr>))"

text \<open>\<^verbatim>\<open>Mongootils.prototype.disconnect\<close>.\<close>

definition disconnect :: "provider \<Rightarrow> nat \<Rightarrow> world \<Rightarrow> nat \<times> world" where
  "disconnect P h w0 =
     (let (p, w) = new_promise w0
      in if truthy (is_state (handles w h) w ''disconnected'')
            \<or> truthy (is_state (handles w h) w ''uninitialized'') then
           (let w1 = set_connection h None w
            in (p, settle p (Resolved (uri (handles w1 h))) w1))
         else if truthy (is_state (handles w h) w ''disconnecting'') then (p, w)
         else
           (p, executor_end p
                 (then_do (then_do (then_do
                    (addConnectionListener h ''error'' (Closure onDisconnectionError p) w)
                    (addConnectionListener h ''disconnected'' (Closure onConnectionClosed p)))
                    (addConnectionListener h ''close'' (Closure disconnect_cleanup p)))
                    (close_request P p h))))"

text \<open>The anonymous callback handed to \<^verbatim>\<open>close\<close>, run by the provider when the
  close has completed: \<^verbatim>\<open>cleanup.bind(this)()\<close>, then
  \<^verbatim>\<open>this.connection = undefined\<close>, then \<^verbatim>\<open>resolve(this.uri)\<close>.\<close>

definition close_callback :: "nat \<Rightarrow> nat \<Rightarrow> world \<Rightarrow> completion" where
  "close_callback p h w =
     then_do (call_closure disconnect_cleanup p (Handle h) JUndefined w)
       (\<lambda>w1. let w2 = set_connection h None w1
             in Normal (settle p (Resolved (uri (handles w2 h))) w2))"

section \<open>Steps of the whole system\<close>

text \<open>The provider moves a connection to another state.\<close>

definition set_readyState :: "nat \<Rightarrow> jsval \<Rightarrow> world \<Rightarrow> world" where
  "set_readyState c v w = w \<lparr> heap := (heap w)(c := (heap w c) \<lparr> readyState := v \<rparr>) \<rparr>"

text \<open>
  One step of the system: a call of \<^verbatim>\<open>connect\<close> or \<^verbatim>\<open>disconnect\<close> on some
  handle; the delivery of an event on some connection; the provider running the
  callback of a close request it has received; the provider, or other code,
  changing a connection object.
\<close>

inductive step :: "provider \<Rightarrow> world \<Rightarrow> world \<Rightarrow> bool" for P :: provider where
  connect_step: "step P w (snd (connect P h w))"
| disconnect_step: "step P w (snd (disconnect P h w))"
| emit_step: "step P w (world_of (emit c ev a w))"
| close_done_step:
    "ConnectionClose c p h \<in> set (requests w) \<Longrightarrow> step P w (world_of (close_callback p h w))"
| provider_step: "step P w (w \<lparr> heap := (heap w)(c := x) \<rparr>)"

text \<open>
  \<open>quiet w w'\<close>: from \<open>w\<close> to \<open>w'\<close> no handle, no connection state, neither
  \<^verbatim>\<open>mongoose.connections\<close> nor the request log has changed; listener registries,
  promises and the identity counter may have.
\<close>

definition quiet :: "world \<Rightarrow> world \<Rightarrow> bool" where
  "quiet w w' \<longleftrightarrow>
     handles w' = handles w \<and> connections w' = connections w \<and> requests w' = requests w
     \<and> (\<forall>c. readyState (heap w' c) = readyState (heap w c))"

section \<open>A sample system\<close>

text \<open>
  A process as it starts: the provider's default connection, not yet opened, is the
  only entry of \<^verbatim>\<open>mongoose.connections\<close>; every handle is the result of
  \<^verbatim>\<open>new Mongootils('mongodb://localhost/db')\<close>. The sample provider moves a
  connection to \<^verbatim>\<open>connecting\<close> when asked to open it and to \<^verbatim>\<open>disconnecting\<close>
  when asked to close it.
\<close>

definition idle_connection :: native_connection where
  "idle_connection =
     \<lparr> host = JStr ''localhost'', port = JNum 27017, hosts = None,
       user = JUndefined, pass = JUndefined, name = JStr ''db'',
       conn_options = JUndefined, readyState = JNum 0, events = None \<rparr>"

definition sample_handle :: mongootils where
  "sample_handle =
     \<lparr> uri = JStr ''mongodb://localhost/db'', options = JUndefined, connection = None \<rparr>"

definition sample_world :: world where
  "sample_world =
     \<lparr> heap = (\<lambda>c. idle_connection), connections = [0], handles = (\<lambda>h. sample_handle),
       promises = (\<lambda>p. Pending), next_id = 1, requests = [] \<rparr>"

definition sample_provider :: provider where
  "sample_provider =
     \<lparr> mongoose_connect = (\<lambda>u opts c. c \<lparr> readyState := JNum 2 \<rparr>),
       mongoose_createConnection = (\<lambda>u opts. idle_connection \<lparr> readyState := JNum 2 \<rparr>),
       connection_close = (\<lambda>c. c \<lparr> readyState := JNum 3 \<rparr>) \<rparr>"

text \<open>The sample system after \<^verbatim>\<open>connect()\<close> on handle 0, and after the provider has
  then opened the connection: state \<^verbatim>\<open>connected\<close>, then the \<^verbatim>\<open>open\<close> event.\<close>

definition connecting_world :: world where
  "connecting_world = snd (connect sample_provider 0 sample_world)"

definition connected_world :: world where
  "connected_world =
     world_of (emit 0 ''open'' JUndefined (set_readyState 0 (JNum 1) connecting_world))"

text \<open>The sample system after a following \<^verbatim>\<open>disconnect()\<close> on handle 0, and after
  the provider has then closed the connection: state \<^verbatim>\<open>disconnected\<close>, then the
  events \<^verbatim>\<open>disconnected\<close> and \<^verbatim>\<open>close\<close>.\<close>

definition disconnecting_world :: world where
  "disconnecting_world = snd (disconnect sample_provider 0 connected_world)"

definition closing_world :: world where
  "closing_world =
     world_of (emit 0 ''close'' JUndefined
       (world_of (emit 0 ''disconnected'' JUndefined
          (set_readyState 0 (JNum 0) disconnecting_world))))"

text \<open>And after the provider has then run the callback of the close request.\<close>

definition closed_world :: world where
  "closed_world = world_of (close_callback 7 0 closing_world)"

text \<open>The sample system with its only connection in state \<^verbatim>\<open>uninitialized\<close>.\<close>

definition uninitialized_world :: world where
  "uninitialized_world =
     sample_world \<lparr> heap := (\<lambda>c. idle_connection \<lparr> readyState := JNum 99 \<rparr>) \<rparr>"

text \<open>The sample system with handle 0 wrapping the default connection, on which
  other code has registered a listener for \<^verbatim>\<open>open\<close> that declares no parameter,
  as in \<^verbatim>\<open>connection.on('open', function(){ ... })\<close>.\<close>

definition watched_world :: world where
  "watched_world =
     sample_world
       \<lparr> heap := (\<lambda>c. idle_connection \<lparr> events := Some [''open'' \<mapsto> Single (Foreign 20 0)] \<rparr>),
         handles := (\<lambda>h. sample_handle \<lparr> connection := Some 0 \<rparr>) \<rparr>"

text \<open>A codec stand-in for the samples: it renders the first host and the database
  name.\<close>

fun sample_format :: "uriObject \<Rightarrow> jsval" where
  "sample_format u =
     (case (uri_hosts u, database u) of
        ((JStr h, p) # hs, JStr d) \<Rightarrow> JStr (''mongodb://'' @ h @ ''/'' @ d)
      | _ \<Rightarrow> JStr ''mongodb://'')"

section \<open>Properties\<close>

subsection \<open>Unfolding and frame lemmas\<close>

lemmas sample_defs = sample_world_def sample_handle_def sample_provider_def idle_connection_def
lemmas trace_defs = connected_world_def connecting_world_def
  disconnecting_world_def closing_world_def

lemmas op_defs = connect_def disconnect_def new_promise_def is_state_def STATES_def settle_def
  open_connection_def uses_default_slot_def set_connection_def addConnectionListener_def
  on_def once_def set_events_def removeListener_def removeListeners_def listeners_of_def
  emit_def set_readyState_def close_request_def close_callback_def matches_def conn_val_def
  TypeError_def listener_count_def

lemma is_state_new_promise:
  "is_state this (w \<lparr> next_id := n, promises := ps \<rparr>) s = is_state this w s"
  by (simp add: is_state_def split: option.splits)

lemma truthy_connected:
  "truthy (is_state this w ''connected'') \<longleftrightarrow>
     (\<exists>c. connection this = Some c \<and> readyState (heap w c) = JNum 1)"
  by (auto simp: is_state_def STATES_def split: option.splits)

lemma quiet_refl: "quiet w w" by (simp add: quiet_def)
lemma quiet_trans: "quiet w w1 \<Longrightarrow> quiet w1 w2 \<Longrightarrow> quiet w w2" by (simp add: quiet_def)

lemma quiet_settle: "quiet w (settle p s w)" by (simp add: quiet_def settle_def)
lemma quiet_set_events: "quiet w (set_events c m w)" by (simp add: quiet_def set_events_def)
lemma quiet_next_id: "quiet w (w \<lparr> next_id := n \<rparr>)" by (simp add: quiet_def)

lemma quiet_on: "quiet w (on c ev f w)"
  by (simp add: on_def Let_def quiet_set_events)

lemma quiet_once: "quiet w (once c ev f w)"
  unfolding once_def Let_def by (rule quiet_trans [OF quiet_next_id quiet_on])

lemma quiet_removeListener: "quiet w (removeListener c ev l w)"
  by (simp add: removeListener_def quiet_set_events quiet_refl split: option.splits slot.splits list.splits)

lemma quiet_addConnectionListener: "quiet w (world_of (addConnectionListener h ev cb w))"
  unfolding addConnectionListener_def Let_def
  by (auto simp: quiet_refl intro: quiet_trans [OF quiet_next_id quiet_on]  quiet_trans [OF quiet_next_id quiet_once] split: option.splits)

lemma quiet_removeListeners: "quiet w (world_of (removeListeners h ev cb w))"
  by (simp add: removeListeners_def quiet_refl quiet_removeListener split: option.splits slot.splits)

lemma quiet_then_do:
  "quiet w (world_of r) \<Longrightarrow> (\<And>w1. quiet w1 (world_of (f w1))) \<Longrightarrow> quiet w (world_of (then_do r f))"
  by (cases r) (auto intro: quiet_trans)

lemma quiet_executor_end: "quiet w (world_of r) \<Longrightarrow> quiet w (executor_end p r)"
  by (cases r) (auto intro: quiet_trans [OF _ quiet_settle])

lemma quiet_this_removeListeners: "quiet w (world_of (this_removeListeners this ev cb w))"
  by (cases this) (simp_all add: quiet_removeListeners quiet_refl)

lemma quiet_call_closure: "quiet w (world_of (call_closure k p this a w))"
  by (cases k) (auto simp: quiet_settle quiet_refl intro!: quiet_then_do quiet_this_removeListeners)

lemma quiet_call_fn: "quiet w (world_of (call_fn f this a w))"
proof (induction f arbitrary: this w)
  case (Closure k p)
  then show ?case by (simp add: quiet_call_closure)
next
  case (Bound f h b)
  then show ?case by simp
next
  case (OnceWrapper f ev i)
  then show ?case by (cases this) (auto simp: quiet_refl intro: quiet_trans [OF quiet_removeListener])
next
  case (Foreign i n)
  then show ?case by (simp add: quiet_refl)
qed

lemma quiet_call_all: "quiet w (world_of (call_all fs c a w))"
  by (induction fs arbitrary: w) (auto simp: quiet_refl intro!: quiet_then_do quiet_call_fn)

lemma quiet_emit: "quiet w (world_of (emit c ev a w))"
  by (auto simp: emit_def quiet_refl quiet_call_fn quiet_call_all split: option.splits slot.splits)

lemma quiet_connect_listeners:
  "quiet w
     (executor_end p
        (then_do (then_do (addConnectionListener h e1 f1 w) (addConnectionListener h e2 f2))
           (addConnectionListener h e3 f3)))"
  by (intro quiet_executor_end quiet_then_do quiet_addConnectionListener)

lemma connect_start:
  assumes "\<not> truthy (is_state (handles w h) w ''connected'')"
    and "\<not> truthy (is_state (handles w h) w ''connecting'')"
  shows "fst (connect P h w) = next_id w"
    and "quiet (open_connection P h (snd (new_promise w))) (snd (connect P h w))"
  using assms
  by (simp_all add: connect_def new_promise_def is_state_new_promise quiet_connect_listeners)

lemma promises_on: "promises (on c ev f w) = promises w"
  by (simp add: on_def set_events_def Let_def)

lemma promises_once: "promises (once c ev f w) = promises w"
  by (simp add: once_def promises_on Let_def)

lemma promises_removeListener: "promises (removeListener c ev l w) = promises w"
  by (simp add: removeListener_def set_events_def split: option.splits slot.splits list.splits)

lemma promises_addConnectionListener:
  "promises (world_of (addConnectionListener h ev cb w)) = promises w"
  by (simp add: addConnectionListener_def promises_on promises_once Let_def split: option.splits)

lemma promises_this_removeListeners:
  "promises (world_of (this_removeListeners this ev cb w)) = promises w"
  by (cases this) (simp_all add: removeListeners_def promises_removeListener split: option.splits slot.splits)

lemma promises_then_do:
  "promises (world_of r) = promises w \<Longrightarrow> (\<And>w1. promises (world_of (f w1)) = promises w1)
     \<Longrightarrow> promises (world_of (then_do r f)) = promises w"
  by (cases r) auto

lemma promises_cleanup:
  "promises (world_of (call_closure disconnect_cleanup p this a w)) = promises w"
  by (auto intro!: promises_then_do promises_this_removeListeners)

lemma promises_close_request: "promises (world_of (close_request P p h w)) = promises w"
  by (simp add: close_request_def split: option.splits)


lemma not_resolved_executor_end:
  "promises (world_of r) p = Pending \<Longrightarrow> promises (executor_end p r) p \<noteq> Resolved v"
  by (cases r) (auto simp: settle_def)


lemma disconnect_resolved:
  assumes "promises (snd (disconnect P h w)) (fst (disconnect P h w)) = Resolved v"
  shows "truthy (is_state (handles w h) w ''disconnected'')
         \<or> truthy (is_state (handles w h) w ''uninitialized'')"
proof (rule ccontr)
  assume n: "\<not> (truthy (is_state (handles w h) w ''disconnected'')
         \<or> truthy (is_state (handles w h) w ''uninitialized''))"
  show False
  proof (cases "truthy (is_state (handles w h) w ''disconnecting'')")
    case True
    with n assms show False
      by (simp add: disconnect_def new_promise_def is_state_new_promise)
  next
    case False
    let ?r = "then_do (then_do (then_do
                (addConnectionListener h ''error'' (Closure onDisconnectionError (next_id w))
                   (snd (new_promise w)))
                (addConnectionListener h ''disconnected'' (Closure onConnectionClosed (next_id w))))
                (addConnectionListener h ''close'' (Closure disconnect_cleanup (next_id w))))
                (close_request P (next_id w) h)"
    have "promises (world_of ?r) = promises (snd (new_promise w))"
      by (intro promises_then_do promises_addConnectionListener promises_close_request)
    then have "promises (world_of ?r) (next_id w) = Pending"
      by (simp add: new_promise_def)
    then have "promises (executor_end (next_id w) ?r) (next_id w) \<noteq> Resolved v"
      by (rule not_resolved_executor_end)
    with n False assms show False
      by (simp add: disconnect_def new_promise_def is_state_new_promise)
  qed
qed


lemma close_callback_Normal:
  assumes "close_callback p h w = Normal w'"
  shows "connection (handles w' h) = None"
    and "uri (handles w' h') = uri (handles w h')"
    and "options (handles w' h') = options (handles w h')"
    and "promises w p = Pending \<Longrightarrow> promises w' p = Resolved (uri (handles w h))"
proof -
  obtain w1 where c: "call_closure disconnect_cleanup p (Handle h) JUndefined w = Normal w1"
    and w': "w' = settle p (Resolved (uri (handles w1 h))) (set_connection h None w1)"
    using assms unfolding close_callback_def Let_def
    by (cases "call_closure disconnect_cleanup p (Handle h) JUndefined w")
       (auto simp: set_connection_def)
  have q: "quiet w w1" using quiet_call_closure [of w disconnect_cleanup p "Handle h" JUndefined] c by simp
  have pr: "promises w1 = promises w" using promises_cleanup [of p "Handle h" JUndefined w] c by simp
  from q have hs: "handles w1 = handles w" by (simp add: quiet_def)
  show "connection (handles w' h) = None" by (simp add: w' settle_def set_connection_def)
  show "uri (handles w' h') = uri (handles w h')" by (simp add: w' settle_def set_connection_def hs)
  show "options (handles w' h') = options (handles w h')" by (simp add: w' settle_def set_connection_def hs)
  show "promises w' p = Resolved (uri (handles w h))" if "promises w p = Pending"
    using that by (simp add: w' settle_def set_connection_def hs pr)
qed

lemma close_callback_Throw:
  assumes "close_callback p h w = Throw e w'"
  shows "promises w' = promises w" and "quiet w w'"
proof -
  have c: "call_closure disconnect_cleanup p (Handle h) JUndefined w = Throw e w'"
    using assms unfolding close_callback_def Let_def
    by (cases "call_closure disconnect_cleanup p (Handle h) JUndefined w") auto
  show "promises w' = promises w" using promises_cleanup [of p "Handle h" JUndefined w] c by simp
  show "quiet w w'" using quiet_call_closure [of w disconnect_cleanup p "Handle h" JUndefined] c by simp
qed

lemma handles_addConnectionListener:
  "handles (world_of (addConnectionListener h ev cb w)) = handles w"
  using quiet_addConnectionListener [of w h ev cb] by (simp add: quiet_def)

lemma handles_close_request: "handles (world_of (close_request P p h w)) = handles w"
  by (simp add: close_request_def split: option.splits)

lemma handles_then_do:
  "handles (world_of r) = handles w \<Longrightarrow> (\<And>w1. handles (world_of (f w1)) = handles w1)
     \<Longrightarrow> handles (world_of (then_do r f)) = handles w"
  by (cases r) auto

lemma handles_executor_end: "handles (executor_end p r) = handles (world_of r)"
  by (cases r) (simp_all add: settle_def)

lemma fields_open_connection:
  "uri (handles (open_connection P h0 w) h) = uri (handles w h)"
  "options (handles (open_connection P h0 w) h) = options (handles w h)"
  by (simp_all add: open_connection_def set_connection_def Let_def)

lemma fields_connect:
  "uri (handles (snd (connect P h0 w)) h) = uri (handles w h)
   \<and> options (handles (snd (connect P h0 w)) h) = options (handles w h)"
proof -
  let ?r = "then_do (then_do
              (addConnectionListener h0 ''error'' (Closure onConnectionError (next_id w))
                 (open_connection P h0 (snd (new_promise w))))
              (addConnectionListener h0 ''open'' (Closure onConnectionOpened (next_id w))))
              (addConnectionListener h0 ''close'' (Closure connect_cleanup (next_id w)))"
  have "handles (world_of ?r) = handles (open_connection P h0 (snd (new_promise w)))"
    by (intro handles_then_do handles_addConnectionListener)
  then have "uri (handles (executor_end (next_id w) ?r) h) = uri (handles w h)"
    "options (handles (executor_end (next_id w) ?r) h) = options (handles w h)"
    by (simp_all add: handles_executor_end fields_open_connection new_promise_def)
  then show ?thesis
    by (simp add: connect_def new_promise_def settle_def)
qed

lemma fields_disconnect:
  "uri (handles (snd (disconnect P h0 w)) h) = uri (handles w h)
   \<and> options (handles (snd (disconnect P h0 w)) h) = options (handles w h)"
proof -
  let ?r = "then_do (then_do (then_do
              (addConnectionListener h0 ''error'' (Closure onDisconnectionError (next_id w))
                 (snd (new_promise w)))
              (addConnectionListener h0 ''disconnected'' (Closure onConnectionClosed (next_id w))))
              (addConnectionListener h0 ''close'' (Closure disconnect_cleanup (next_id w))))
              (close_request P (next_id w) h0)"
  have "handles (world_of ?r) = handles (snd (new_promise w))"
    by (intro handles_then_do handles_addConnectionListener handles_close_request)
  then have "handles (executor_end (next_id w) ?r) = handles w"
    by (simp add: handles_executor_end new_promise_def)
  then show ?thesis
    by (simp add: disconnect_def new_promise_def settle_def set_connection_def Let_def)
qed

lemma fields_close_callback:
  "uri (handles (world_of (close_callback p h0 w)) h) = uri (handles w h)
   \<and> options (handles (world_of (close_callback p h0 w)) h) = options (handles w h)"
proof (cases "close_callback p h0 w")
  case (Normal w')
  then show ?thesis using close_callback_Normal(2,3) [OF Normal] by simp
next
  case (Throw e w')
  then show ?thesis using close_callback_Throw(2) [OF Throw] by (simp add: quiet_def)
qed

lemma fields_step:
  assumes "step P w w'"
  shows "uri (handles w' h) = uri (handles w h) \<and> options (handles w' h) = options (handles w h)"
  using assms
proof cases
  case (connect_step h0)
  then show ?thesis by (simp add: fields_connect)
next
  case (disconnect_step h0)
  then show ?thesis by (simp add: fields_disconnect)
next
  case (emit_step c ev a)
  then show ?thesis using quiet_emit [of w c ev a] by (simp add: quiet_def)
next
  case (close_done_step c p h0)
  then show ?thesis by (simp add: fields_close_callback)
next
  case (provider_step c x)
  then show ?thesis by simp
qed

subsection \<open>Queries and the immediate paths\<close>

text \<open>
  C7, as amended. \<^verbatim>\<open>is(stateName)\<close> depends on the handle and the held connection's
  state only and changes nothing. For \<^verbatim>\<open>disconnected\<close> and \<^verbatim>\<open>uninitialized\<close> it
  is the boolean that is true exactly when no connection is held or the held
  connection reports that state. For any other name it is \<^verbatim>\<open>undefined\<close> (falsy, but
  not a boolean) when no connection is held, and otherwise the boolean that is true
  exactly when the held connection reports that state.
\<close>

theorem is_state_result:
  "is_state this w state =
     (if state = ''disconnected'' \<or> state = ''uninitialized'' then
        JBool (connection this = None
               \<or> (\<exists>c. connection this = Some c \<and> readyState (heap w c) = STATES state))
      else if connection this = None then JUndefined
      else JBool (\<exists>c. connection this = Some c \<and> readyState (heap w c) = STATES state))"
  by (auto simp: is_state_def split: option.splits)

text \<open>
  C7 as stated fails: on a handle that holds no connection, \<^verbatim>\<open>is('connected')\<close>
  returns \<^verbatim>\<open>undefined\<close>, which is neither \<^verbatim>\<open>true\<close> nor \<^verbatim>\<open>false\<close>.
\<close>

theorem is_state_counterexample:
  "is_state sample_handle sample_world ''connected'' = JUndefined
   \<and> is_state sample_handle sample_world ''connected'' \<noteq> JBool True
   \<and> is_state sample_handle sample_world ''connected'' \<noteq> JBool False"
  by (simp add: is_state_def sample_handle_def)

text \<open>
  C6. On a handle that holds no connection, or whose connection reports
  \<^verbatim>\<open>disconnected\<close> or \<^verbatim>\<open>uninitialized\<close>, \<^verbatim>\<open>disconnect()\<close> returns a promise that is
  already resolved with the stored URI (so nothing was thrown), the connection
  reference is cleared, and no request reaches the provider: the request log and
  every connection object are as before.
\<close>

theorem disconnect_when_disconnected:
  assumes "connection (handles w h) = None
           \<or> truthy (is_state (handles w h) w ''disconnected'')
           \<or> truthy (is_state (handles w h) w ''uninitialized'')"
  shows "case disconnect P h w of (p, w') \<Rightarrow>
           promises w' p = Resolved (uri (handles w h))
           \<and> connection (handles w' h) = None
           \<and> requests w' = requests w
           \<and> heap w' = heap w
           \<and> connections w' = connections w"
proof -
  have "truthy (is_state (handles w h) w ''disconnected'')
        \<or> truthy (is_state (handles w h) w ''uninitialized'')"
    using assms by (auto simp: is_state_def)
  then have "disconnect P h w =
      (next_id w, settle (next_id w) (Resolved (uri (handles w h)))
                    (set_connection h None (snd (new_promise w))))"
    by (auto simp: disconnect_def new_promise_def is_state_new_promise Let_def set_connection_def)
  then show ?thesis
    by (simp add: settle_def set_connection_def new_promise_def)
qed

text \<open>C6 on the sample system, whose handle 0 never held a connection.\<close>

theorem disconnect_when_disconnected_witness:
  "connection (handles sample_world 0) = None
   \<and> (case disconnect sample_provider 0 sample_world of (p, w') \<Rightarrow>
         promises w' p = Resolved (JStr ''mongodb://localhost/db'')
         \<and> connection (handles w' 0) = None
         \<and> requests w' = []
         \<and> heap w' = heap sample_world
         \<and> connections w' = [0])"
  using disconnect_when_disconnected [of sample_world 0 sample_provider]
  by (simp add: sample_world_def sample_handle_def split: prod.splits)

text \<open>
  C1. On a handle whose held connection reports \<^verbatim>\<open>connected\<close>, \<^verbatim>\<open>connect()\<close>
  returns a promise already resolved with the reference the handle holds, and
  starts no work: connection objects (with their listener registries), handles,
  \<^verbatim>\<open>mongoose.connections\<close> and the request log are unchanged. A second
  \<^verbatim>\<open>connect()\<close> right after it resolves with the same reference.
\<close>

theorem connect_when_connected:
  assumes "truthy (is_state (handles w h) w ''connected'')"
  shows "\<exists>c. connection (handles w h) = Some c
           \<and> (case connect P h w of (p, w1) \<Rightarrow>
                 promises w1 p = Resolved (JRef c)
                 \<and> heap w1 = heap w \<and> handles w1 = handles w
                 \<and> connections w1 = connections w \<and> requests w1 = requests w
                 \<and> (case connect P h w1 of (q, w2) \<Rightarrow>
                       promises w2 q = Resolved (JRef c) \<and> promises w2 p = Resolved (JRef c)
                       \<and> heap w2 = heap w \<and> handles w2 = handles w
                       \<and> connections w2 = connections w \<and> requests w2 = requests w))"
proof -
  from assms obtain c where c: "connection (handles w h) = Some c"
    and r: "readyState (heap w c) = JNum 1"
    by (auto simp: truthy_connected)
  have step: "connect P h v =
      (next_id v, v \<lparr> next_id := Suc (next_id v),
                       promises := (promises v)(next_id v := Resolved (JRef c)) \<rparr>)"
    if "connection (handles v h) = Some c" "readyState (heap v c) = JNum 1" for v
  proof -
    have "truthy (is_state (handles v h) v ''connected'')"
      using that by (simp add: truthy_connected)
    then show ?thesis
      by (simp add: connect_def new_promise_def is_state_new_promise settle_def conn_val_def that)
  qed
  let ?w1 = "w \<lparr> next_id := Suc (next_id w),
                  promises := (promises w)(next_id w := Resolved (JRef c)) \<rparr>"
  have 1: "connect P h w = (next_id w, ?w1)" using c r by (rule step)
  have 2: "connect P h ?w1 = (next_id ?w1, ?w1 \<lparr> next_id := Suc (next_id ?w1),
                       promises := (promises ?w1)(next_id ?w1 := Resolved (JRef c)) \<rparr>)"
    by (rule step) (simp_all add: c r)
  show ?thesis
    by (rule exI [of _ c]) (simp add: c 1 2)
qed

text \<open>C1 on the sample system after a first \<^verbatim>\<open>connect()\<close> has resolved through the
  \<^verbatim>\<open>open\<close> event with connection 0: two more calls resolve with connection 0.\<close>

theorem connect_when_connected_witness:
  "truthy (is_state (handles connected_world 0) connected_world ''connected'')
   \<and> promises connected_world 1 = Resolved (JRef 0)
   \<and> (case connect sample_provider 0 connected_world of (p, w1) \<Rightarrow>
         promises w1 p = Resolved (JRef 0)
         \<and> requests w1 = requests connected_world
         \<and> (case connect sample_provider 0 w1 of (q, w2) \<Rightarrow>
               promises w2 q = Resolved (JRef 0) \<and> requests w2 = requests connected_world))"
proof -
  have h: "truthy (is_state (handles connected_world 0) connected_world ''connected'')"
    by (simp add: connected_world_def connecting_world_def sample_defs op_defs Let_def)
  have c: "connection (handles connected_world 0) = Some 0"
    by (simp add: connected_world_def connecting_world_def sample_defs op_defs Let_def)
  have p: "promises connected_world 1 = Resolved (JRef 0)"
    by (simp add: connected_world_def connecting_world_def sample_defs op_defs Let_def)
  show ?thesis
    using h p c connect_when_connected [OF h, of sample_provider]
    by (auto split: prod.splits)
qed

text \<open>
  C8. \<^verbatim>\<open>getConnectionURI()\<close> is \<^verbatim>\<open>undefined\<close> when no connection is held.
  Otherwise it is \<^verbatim>\<open>formatMongoose(format(o))\<close> for the object \<open>o\<close> that carries the
  connection's user, password and database name and, as hosts, the connection's
  \<^verbatim>\<open>hosts\<close> list as it is when there is one, and the single pair of its
  \<^verbatim>\<open>host\<close> and \<^verbatim>\<open>port\<close> when there is none.
\<close>

theorem getConnectionURI_result:
  "(connection this = None \<longrightarrow> getConnectionURI format formatMongoose this w = JUndefined)
   \<and> (\<forall>c. connection this = Some c \<longrightarrow>
         getConnectionURI format formatMongoose this w =
           formatMongoose (format
             \<lparr> username = user (heap w c), password = pass (heap w c),
               database = name (heap w c),
               uri_hosts = (case hosts (heap w c) of
                              None \<Rightarrow> [(host (heap w c), port (heap w c))]
                            | Some hs \<Rightarrow> hs) \<rparr>))"
  by (simp add: getConnectionURI_def Let_def)

text \<open>C8 on a handle without connection, on a single-host connection and on a
  connection with two hosts.\<close>

theorem getConnectionURI_result_witness:
  "getConnectionURI sample_format (\<lambda>u. u) sample_handle sample_world = JUndefined
   \<and> getConnectionURI sample_format (\<lambda>u. u) (handles connected_world 0) connected_world
       = JStr ''mongodb://localhost/db''
   \<and> getConnectionURI sample_format (\<lambda>u. u) (sample_handle \<lparr> connection := Some 0 \<rparr>)
       (sample_world \<lparr> heap := (\<lambda>c. idle_connection \<lparr> hosts := Some [(JStr ''h1'', JNum 1), (JStr ''h2'', JNum 2)] \<rparr>) \<rparr>)
       = JStr ''mongodb://h1/db''"
proof -
  have c: "connection (handles connected_world 0) = Some 0"
    by (simp add: connected_world_def connecting_world_def sample_defs op_defs Let_def)
  have n: "connection sample_handle = None" by (simp add: sample_handle_def)
  have hp: "name (heap connected_world 0) = JStr ''db''" "hosts (heap connected_world 0) = None"
    "host (heap connected_world 0) = JStr ''localhost''"
    by (simp_all add: connected_world_def connecting_world_def sample_defs op_defs Let_def)
  show ?thesis
    using getConnectionURI_result [of sample_handle sample_format "\<lambda>u. u" sample_world]
      getConnectionURI_result [of "handles connected_world 0" sample_format "\<lambda>u. u" connected_world]
      getConnectionURI_result [of "sample_handle \<lparr> connection := Some 0 \<rparr>" sample_format "\<lambda>u. u"
         "sample_world \<lparr> heap := (\<lambda>c. idle_connection \<lparr> hosts := Some [(JStr ''h1'', JNum 1), (JStr ''h2'', JNum 2)] \<rparr>) \<rparr>"]
    by (simp add: n c hp idle_connection_def)
qed

subsection \<open>Starting a connection\<close>

text \<open>
  C5, as amended. When \<^verbatim>\<open>connect()\<close> starts a connection (the handle is neither
  connected nor connecting), it uses the default slot \<^verbatim>\<open>mongoose.connections[0]\<close>
  through \<^verbatim>\<open>mongoose.connect\<close> exactly when \<^verbatim>\<open>mongoose.connections\<close> has length
  one and its only connection has \<^verbatim>\<open>readyState\<close> 0, the code of \<^verbatim>\<open>disconnected\<close>
  and not of \<^verbatim>\<open>uninitialized\<close>; in every other case it holds a new object from
  \<^verbatim>\<open>mongoose.createConnection\<close>, at a fresh address.
\<close>

theorem connect_default_slot:
  assumes "\<not> truthy (is_state (handles w h) w ''connected'')"
    and "\<not> truthy (is_state (handles w h) w ''connecting'')"
  shows "STATES ''disconnected'' = JNum 0 \<and> STATES ''uninitialized'' \<noteq> JNum 0
     \<and> (case connect P h w of (p, w') \<Rightarrow>
          if length (connections w) = 1 \<and> readyState (heap w (connections w ! 0)) = JNum 0
          then connection (handles w' h) = Some (connections w ! 0)
               \<and> connections w' = connections w
               \<and> requests w' = requests w @ [MongooseConnect (uri (handles w h)) (options (handles w h))]
          else connection (handles w' h) = Some (Suc (next_id w))
               \<and> connections w' = connections w @ [Suc (next_id w)]
               \<and> requests w' = requests w @ [CreateConnection (uri (handles w h)) (options (handles w h))])"
proof -
  let ?v = "open_connection P h (snd (new_promise w))"
  let ?w' = "snd (connect P h w)"
  have q: "handles ?w' = handles ?v" "connections ?w' = connections ?v" "requests ?w' = requests ?v"
    using connect_start(2) [OF assms, of P] by (simp_all add: quiet_def)
  have c: "connect P h w = (next_id w, ?w')"
    using connect_start(1) [OF assms, of P] by (simp add: prod_eq_iff)
  show ?thesis
    apply (subst c)
    apply (simp add: q STATES_def)
    apply (simp add: open_connection_def uses_default_slot_def new_promise_def set_connection_def Let_def)
    done
qed

text \<open>
  C5 as stated fails: with a single connection in state \<^verbatim>\<open>uninitialized\<close>,
  \<^verbatim>\<open>connect()\<close> does not use the default slot but asks for a new connection.
\<close>

theorem connect_default_slot_counterexample:
  "connections uninitialized_world = [0]
   \<and> readyState (heap uninitialized_world 0) = STATES ''uninitialized''
   \<and> requests (snd (connect sample_provider 0 uninitialized_world))
       = [CreateConnection (JStr ''mongodb://localhost/db'') JUndefined]
   \<and> connection (handles (snd (connect sample_provider 0 uninitialized_world)) 0) = Some 2
   \<and> connections (snd (connect sample_provider 0 uninitialized_world)) = [0, 2]"
  by (simp add: uninitialized_world_def sample_defs op_defs Let_def)

text \<open>C5 on the sample system: a single connection with \<^verbatim>\<open>readyState\<close> 0 is
  opened through the default slot.\<close>

theorem connect_default_slot_witness:
  "\<not> truthy (is_state (handles sample_world 0) sample_world ''connected'')
   \<and> \<not> truthy (is_state (handles sample_world 0) sample_world ''connecting'')
   \<and> readyState (heap sample_world 0) = STATES ''disconnected''
   \<and> (case connect sample_provider 0 sample_world of (p, w') \<Rightarrow>
         connection (handles w' 0) = Some 0 \<and> connections w' = [0]
         \<and> requests w' = [MongooseConnect (JStr ''mongodb://localhost/db'') JUndefined])"
proof -
  have a: "\<not> truthy (is_state (handles sample_world 0) sample_world ''connected'')"
    and b: "\<not> truthy (is_state (handles sample_world 0) sample_world ''connecting'')"
    by (simp_all add: sample_defs is_state_def)
  show ?thesis
    using a b connect_default_slot [OF a b, of sample_provider]
    by (simp add: sample_defs STATES_def split: prod.splits)
qed

subsection \<open>Listener bookkeeping\<close>

text \<open>
  C3 does not hold of the code. After \<^verbatim>\<open>connect()\<close> has resolved through the
  \<^verbatim>\<open>open\<close> event, the registry holds one listener for \<^verbatim>\<open>close\<close>: the wrapper of
  \<^verbatim>\<open>once\<close>, kept as the function itself, whose \<^verbatim>\<open>length\<close> is 0. The guard of
  \<^verbatim>\<open>addConnectionListener\<close> reads that \<^verbatim>\<open>length\<close> as "no listener", so the call
  \<^verbatim>\<open>addConnectionListener('close', cleanup)\<close> of a following \<^verbatim>\<open>disconnect()\<close>
  attaches a second listener for \<^verbatim>\<open>close\<close>. The same happens with any lone
  listener that declares no parameter.
\<close>

theorem addConnectionListener_duplicate:
  "listener_count connected_world 0 ''close'' = 1
   \<and> listeners_of connected_world 0 ''close''
       = Some (Single (OnceWrapper (Bound (Closure connect_cleanup 1) 0 5) ''close'' 6))
   \<and> listener_count
        (world_of (addConnectionListener 0 ''close'' (Closure disconnect_cleanup 7) connected_world))
        0 ''close'' = 2
   \<and> listener_count (snd (disconnect sample_provider 0 connected_world)) 0 ''close'' = 2
   \<and> listener_count watched_world 0 ''open'' = 1
   \<and> listener_count
        (world_of (addConnectionListener 0 ''open'' (Closure onConnectionOpened 1) watched_world))
        0 ''open'' = 2"
  by (simp add: watched_world_def trace_defs sample_defs op_defs Let_def)




subsection \<open>The events of a connect attempt\<close>




subsection \<open>State after a promise has resolved\<close>



subsection \<open>The stored URI and options\<close>

text \<open>
  C10. Over any sequence of steps (calls of \<^verbatim>\<open>connect\<close> and \<^verbatim>\<open>disconnect\<close> on
  any handle, deliveries of events, close callbacks, changes the provider makes to
  connection objects) the \<^verbatim>\<open>uri\<close> and \<^verbatim>\<open>options\<close> of every handle stay what they
  were, so for a handle built by \<^verbatim>\<open>new Mongootils(uri, options)\<close> they stay the two
  arguments; \<^verbatim>\<open>is\<close>, \<^verbatim>\<open>getConnection\<close> and \<^verbatim>\<open>getConnectionURI\<close> only compute a
  value. Both places that resolve the promise of \<^verbatim>\<open>disconnect()\<close>, the no-op
  path and the close callback, resolve it with the handle's \<^verbatim>\<open>uri\<close>.
\<close>

theorem uri_and_options_fixed:
  "((step P)\<^sup>*\<^sup>* w w' \<longrightarrow>
      uri (handles w' h) = uri (handles w h) \<and> options (handles w' h) = options (handles w h))
   \<and> (\<forall>v. promises (snd (disconnect P h w)) (fst (disconnect P h w)) = Resolved v \<longrightarrow>
         v = uri (handles w h))
   \<and> (\<forall>w1. promises w p = Pending \<and> close_callback p h w = Normal w1 \<longrightarrow>
         promises w1 p = Resolved (uri (handles w h)))
   \<and> (\<forall>a0 a1. handles w h = Mongootils format formatMongoose (FromUri a0 a1) w
                  \<and> (step P)\<^sup>*\<^sup>* w w' \<longrightarrow>
         uri (handles w' h) = a0 \<and> options (handles w' h) = a1)"
proof (intro conjI allI impI)
  have fixed: "uri (handles w' h) = uri (handles w h) \<and> options (handles w' h) = options (handles w h)"
    if "(step P)\<^sup>*\<^sup>* w w'"
    using that
  proof (induction rule: rtranclp_induct)
    case base
    show ?case by simp
  next
    case (step y z)
    then show ?case using fields_step [of P y z h] by simp
  qed
  {
    assume "(step P)\<^sup>*\<^sup>* w w'"
    then show "uri (handles w' h) = uri (handles w h)"
      and "options (handles w' h) = options (handles w h)" by (simp_all add: fixed)
  }
  {
    fix a0 a1
    assume "handles w h = Mongootils format formatMongoose (FromUri a0 a1) w
            \<and> (step P)\<^sup>*\<^sup>* w w'"
    then show "uri (handles w' h) = a0" and "options (handles w' h) = a1"
      by (simp_all add: fixed)
  }
next
  fix v assume r: "promises (snd (disconnect P h w)) (fst (disconnect P h w)) = Resolved v"
  have "truthy (is_state (handles w h) w ''disconnected'')
         \<or> truthy (is_state (handles w h) w ''uninitialized'')"
    using r by (rule disconnect_resolved)
  then have "disconnect P h w =
      (next_id w, settle (next_id w) (Resolved (uri (handles w h)))
                    (set_connection h None (snd (new_promise w))))"
    by (auto simp: disconnect_def new_promise_def is_state_new_promise Let_def set_connection_def)
  with r show "v = uri (handles w h)"
    by (simp add: settle_def set_connection_def new_promise_def)
next
  fix w1 assume "promises w p = Pending \<and> close_callback p h w = Normal w1"
  then show "promises w1 p = Resolved (uri (handles w h))"
    using close_callback_Normal(4) [of p h w w1] by simp
qed

text \<open>C10 on the sample system, from the start through connect, open,
  disconnect, close and the close callback.\<close>

theorem uri_and_options_fixed_witness:
  "(step sample_provider)\<^sup>*\<^sup>* sample_world closed_world
   \<and> uri (handles closed_world 0) = JStr ''mongodb://localhost/db''
   \<and> options (handles closed_world 0) = JUndefined
   \<and> promises (snd (disconnect sample_provider 0 sample_world))
        (fst (disconnect sample_provider 0 sample_world)) = Resolved (JStr ''mongodb://localhost/db'')
   \<and> promises closing_world 7 = Pending
   \<and> close_callback 7 0 closing_world = Normal closed_world
   \<and> promises closed_world 7 = Resolved (JStr ''mongodb://localhost/db'')
   \<and> handles sample_world 0
       = Mongootils sample_format (\<lambda>u. u) (FromUri (JStr ''mongodb://localhost/db'') JUndefined)
           sample_world"
proof -
  let ?P = sample_provider
  have ctor: "handles sample_world 0
       = Mongootils sample_format (\<lambda>u. u) (FromUri (JStr ''mongodb://localhost/db'') JUndefined)
           sample_world"
    by (simp add: sample_defs)
  have s1: "step ?P sample_world connecting_world"
    unfolding connecting_world_def by (rule connect_step)
  have s2: "step ?P connecting_world (set_readyState 0 (JNum 1) connecting_world)"
    unfolding set_readyState_def by (rule provider_step)
  have s3: "step ?P (set_readyState 0 (JNum 1) connecting_world) connected_world"
    unfolding connected_world_def by (rule emit_step)
  have s4: "step ?P connected_world disconnecting_world"
    unfolding disconnecting_world_def by (rule disconnect_step)
  have s5: "step ?P disconnecting_world (set_readyState 0 (JNum 0) disconnecting_world)"
    unfolding set_readyState_def by (rule provider_step)
  have s6: "step ?P (set_readyState 0 (JNum 0) disconnecting_world)
              (world_of (emit 0 ''disconnected'' JUndefined
                 (set_readyState 0 (JNum 0) disconnecting_world)))"
    by (rule emit_step)
  have s7: "step ?P (world_of (emit 0 ''disconnected'' JUndefined
                 (set_readyState 0 (JNum 0) disconnecting_world))) closing_world"
    unfolding closing_world_def by (rule emit_step)
  have rq: "ConnectionClose 0 7 0 \<in> set (requests closing_world)"
    by (simp add: trace_defs sample_defs op_defs Let_def)
  have s8: "step ?P closing_world closed_world"
    unfolding closed_world_def using rq by (rule close_done_step)
  have "(step ?P)\<^sup>*\<^sup>* sample_world sample_world" by (rule rtranclp.rtrancl_refl)
  from this s1 have "(step ?P)\<^sup>*\<^sup>* sample_world connecting_world"
    by (rule rtranclp.rtrancl_into_rtrancl)
  from this s2 have "(step ?P)\<^sup>*\<^sup>* sample_world (set_readyState 0 (JNum 1) connecting_world)"
    by (rule rtranclp.rtrancl_into_rtrancl)
  from this s3 have "(step ?P)\<^sup>*\<^sup>* sample_world connected_world"
    by (rule rtranclp.rtrancl_into_rtrancl)
  from this s4 have "(step ?P)\<^sup>*\<^sup>* sample_world disconnecting_world"
    by (rule rtranclp.rtrancl_into_rtrancl)
  from this s5
  have "(step ?P)\<^sup>*\<^sup>* sample_world (set_readyState 0 (JNum 0) disconnecting_world)"
    by (rule rtranclp.rtrancl_into_rtrancl)
  from this s6
  have "(step ?P)\<^sup>*\<^sup>* sample_world
          (world_of (emit 0 ''disconnected'' JUndefined
             (set_readyState 0 (JNum 0) disconnecting_world)))"
    by (rule rtranclp.rtrancl_into_rtrancl)
  from this s7 have "(step ?P)\<^sup>*\<^sup>* sample_world closing_world"
    by (rule rtranclp.rtrancl_into_rtrancl)
  from this s8 have reach: "(step ?P)\<^sup>*\<^sup>* sample_world closed_world"
    by (rule rtranclp.rtrancl_into_rtrancl)
  have "(step ?P)\<^sup>*\<^sup>* closing_world closing_world" by (rule rtranclp.rtrancl_refl)
  from this s8 have last: "(step ?P)\<^sup>*\<^sup>* closing_world closed_world"
    by (rule rtranclp.rtrancl_into_rtrancl)
  have u: "uri (handles sample_world 0) = JStr ''mongodb://localhost/db''"
    "options (handles sample_world 0) = JUndefined"
    by (simp_all add: sample_defs)
  have d: "\<exists>v. promises (snd (disconnect ?P 0 sample_world)) (fst (disconnect ?P 0 sample_world))
             = Resolved v"
    by (simp add: sample_defs op_defs Let_def)
  have pend: "promises closing_world 7 = Pending"
    by (simp add: trace_defs sample_defs op_defs Let_def)
  have "\<exists>w1. close_callback 7 0 closing_world = Normal w1"
    by (simp add: trace_defs sample_defs op_defs Let_def)
  then have cc: "close_callback 7 0 closing_world = Normal closed_world"
    by (auto simp: closed_world_def)
  note reach_fix = uri_and_options_fixed [of ?P sample_world closed_world 0,
      THEN conjunct1, rule_format, OF reach]
  have last_fix: "uri (handles closed_world 0) = uri (handles closing_world 0)"
    using uri_and_options_fixed [of ?P closing_world closed_world 0,
      THEN conjunct1, rule_format, OF last] by simp
  from d obtain v where v: "promises (snd (disconnect ?P 0 sample_world))
      (fst (disconnect ?P 0 sample_world)) = Resolved v" by blast
  have "v = uri (handles sample_world 0)"
    by (rule uri_and_options_fixed [of ?P sample_world sample_world 0, THEN conjunct2, THEN conjunct1,
          rule_format, OF v])
  with v u have dv: "promises (snd (disconnect ?P 0 sample_world))
      (fst (disconnect ?P 0 sample_world)) = Resolved (JStr ''mongodb://localhost/db'')"
    by simp
  have "promises closed_world 7 = Resolved (uri (handles closing_world 0))"
    by (rule uri_and_options_fixed [of ?P closing_world closing_world 0 7,
          THEN conjunct2, THEN conjunct2, THEN conjunct1, rule_format, OF conjI, OF pend cc])
  with last_fix reach_fix u
  have pv: "promises closed_world 7 = Resolved (JStr ''mongodb://localhost/db'')"
    by simp
  have uo: "uri (handles closed_world 0) = JStr ''mongodb://localhost/db''
            \<and> options (handles closed_world 0) = JUndefined"
    by (rule uri_and_options_fixed [of ?P sample_world closed_world 0 7 sample_format "\<lambda>u. u",
          THEN conjunct2, THEN conjunct2, THEN conjunct2, rule_format, OF conjI, OF ctor reach])
  show ?thesis
    by (intro conjI reach uo [THEN conjunct1] uo [THEN conjunct2] dv pend cc pv ctor)
qed


end
